theory Spec2Isabelle
  imports Complex_Main "HOL-Library.Log_Nat" "HOL-Library.Word"
begin

section \<open>Python values used by \<open>s24_web_dashboard.py\<close>\<close>

subsection \<open>Floats\<close>

text \<open>
  A Python \<open>float\<close> is an IEEE-754 binary64 number.  A finite one is modelled by the
  rational number it denotes; an arithmetic operation computes the exact rational
  result and rounds it to the nearest binary64 number, ties to the even significand
  (\<open>rnd\<close>).  Subnormal numbers are covered by the exponent clamp at \<open>- 1022\<close>.
  Infinities and NaN are not modelled: every float of this program is computed from
  16-bit registers and the constants 100.0 and 20.0, so its magnitude is at most 65535.
\<close>

type_synonym pyfloat = rat

definition round_even :: "rat \<Rightarrow> int" where
  "round_even q =
     (let f = \<lfloor>q\<rfloor>; r = q - of_int f
      in if r < 1 / 2 then f
         else if 1 / 2 < r then f + 1
         else if even f then f else f + 1)"

text \<open>\<open>bexp x\<close> is the binary exponent of \<open>x \<noteq> 0\<close>: \<open>2 powi bexp x \<le> \<bar>x\<bar> < 2 powi (bexp x + 1)\<close>.\<close>

definition bexp :: "rat \<Rightarrow> int" where
  "bexp x =
     (let (p, q) = quotient_of \<bar>x\<bar>; d = bitlen p - bitlen q
      in if 2 powi d \<le> \<bar>x\<bar> then d else d - 1)"

text \<open>The spacing of the binary64 numbers around \<open>x\<close>: 53 significant bits.\<close>

definition ulp :: "rat \<Rightarrow> rat" where
  "ulp x = 2 powi (max (bexp x) (- 1022) - 52)"

definition rnd :: "rat \<Rightarrow> pyfloat" where
  "rnd x = (if x = 0 then 0 else of_int (round_even (x / ulp x)) * ulp x)"

subsection \<open>Exceptions\<close>

text \<open>
  \<open>Raised m\<close> is an exception raised inside a call into the Modbus client library,
  with \<open>str(e) = m\<close>.  \<open>IndexError\<close> and \<open>ZeroDivisionError\<close> are the two exceptions
  the expressions of the decoding block can raise themselves.
\<close>

datatype fault = IndexError | ZeroDivisionError | Raised string

fun fault_str :: "fault \<Rightarrow> string" where
  "fault_str IndexError = ''list index out of range''"
| "fault_str ZeroDivisionError = ''float division by zero''"
| "fault_str (Raised m) = m"

definition and_then :: "fault + 'a \<Rightarrow> ('a \<Rightarrow> fault + 'b) \<Rightarrow> fault + 'b" where
  "and_then m f = (case m of Inl e \<Rightarrow> Inl e | Inr x \<Rightarrow> f x)"

text \<open>\<open>xs[i]\<close> for a non-negative index.\<close>

definition getitem :: "'a list \<Rightarrow> nat \<Rightarrow> fault + 'a" where
  "getitem xs i = (if i < length xs then Inr (xs ! i) else Inl IndexError)"

text \<open>\<open>float(n)\<close>, also the implicit conversion of the \<open>int\<close> operand of \<open>n / 100.0\<close>.\<close>

definition float_of_int :: "int \<Rightarrow> pyfloat" where
  "float_of_int n = rnd (of_int n)"

text \<open>\<open>a / b\<close> on floats.\<close>

definition truediv :: "pyfloat \<Rightarrow> pyfloat \<Rightarrow> fault + pyfloat" where
  "truediv a b = (if b = 0 then Inl ZeroDivisionError else Inr (rnd (a / b)))"

text \<open>\<open>a - b\<close> on floats.\<close>

definition fsub :: "pyfloat \<Rightarrow> pyfloat \<Rightarrow> pyfloat" where
  "fsub a b = rnd (a - b)"

section \<open>The shared dictionary \<open>sensor_data\<close>\<close>

text \<open>
  The dictionary has the same nine string keys for the whole run, so it is a record
  with one field per key.  A Modbus holding register is an unsigned 16-bit value.
\<close>

type_synonym register = "16 word"

record reading_dict =
  humidity :: pyfloat
  temp_c :: pyfloat
  temp_f :: pyfloat
  dewpoint_c :: pyfloat
  dewpoint_f :: pyfloat
  dewpoint_spread :: pyfloat
  timestamp :: string
  status :: string
  raw_values :: "register list"

text \<open>The dictionary literal of lines 137-147.\<close>

definition initial_sensor_data :: reading_dict where
  "initial_sensor_data =
     \<lparr>humidity = 0, temp_c = 0, temp_f = 0, dewpoint_c = 0, dewpoint_f = 0,
      dewpoint_spread = 0, timestamp = [], status = ''Initializing...'',
      raw_values = [0, 0, 0, 0, 0]\<rparr>"

section \<open>Decoding a register block (\<open>read_sensor_data\<close>, lines 786-821)\<close>

text \<open>\<open>raw_values[i] / d\<close> and \<open>float(raw_values[i])\<close>.\<close>

definition scaled :: "register list \<Rightarrow> nat \<Rightarrow> pyfloat \<Rightarrow> fault + pyfloat" where
  "scaled raw i d = and_then (getitem raw i) (\<lambda>r. truediv (float_of_int (uint r)) d)"

definition unscaled :: "register list \<Rightarrow> nat \<Rightarrow> fault + pyfloat" where
  "unscaled raw i = and_then (getitem raw i) (\<lambda>r. Inr (float_of_int (uint r)))"

text \<open>
  The block from \<open>raw_values = result.registers\<close> to the dictionary literal that
  becomes the new \<open>sensor_data\<close>; \<open>now\<close> is the string
  \<open>datetime.now().strftime('%Y-%m-%d %H:%M:%S')\<close>.  The statements run in the order of
  the source, so the first failing one decides the exception.
\<close>

definition decode :: "register list \<Rightarrow> string \<Rightarrow> fault + reading_dict" where
  "decode raw now =
     and_then (getitem raw 0) (\<lambda>r0.
     and_then
       (if 1000 < uint r0 then
          and_then (scaled raw 0 100) (\<lambda>h.
          and_then (scaled raw 1 20) (\<lambda>tc.
          and_then (scaled raw 2 20) (\<lambda>tf.
          and_then (scaled raw 3 100) (\<lambda>dc.
          and_then (scaled raw 4 100) (\<lambda>df.
          Inr (h, tc, tf, dc, df))))))
        else
          and_then (unscaled raw 0) (\<lambda>h.
          and_then (unscaled raw 1) (\<lambda>tc.
          and_then (unscaled raw 2) (\<lambda>tf.
          and_then (unscaled raw 3) (\<lambda>dc.
          and_then (unscaled raw 4) (\<lambda>df.
          Inr (h, tc, tf, dc, df)))))))
       (\<lambda>(h, tc, tf, dc, df).
          Inr \<lparr>humidity = h, temp_c = tc, temp_f = tf, dewpoint_c = dc, dewpoint_f = df,
               dewpoint_spread = fsub tc dc, timestamp = now, status = ''Online'',
               raw_values = raw\<rparr>))"

section \<open>One iteration of the reader loop (\<open>read_sensor_data\<close>, lines 773-842)\<close>

text \<open>
  What the Modbus client does in one iteration is the environment's choice:
  \<open>connect()\<close> returns \<open>True\<close> or \<open>False\<close> or raises,
  \<open>read_holding_registers\<close> returns a response whose \<open>isError()\<close> is true, or a
  response carrying \<open>registers\<close>, or raises, and \<open>close()\<close> returns or raises.
  Console output and the 100 ms sleep are not modelled.
\<close>

datatype connect_result = ConnectTrue | ConnectFalse | ConnectRaises string

datatype read_result = Registers "register list" | IsError | ReadRaises string

datatype close_result = CloseReturns | CloseRaises string

record cycle_io =
  connect_io :: connect_result
  read_io :: read_result
  close_io :: close_result
  now_io :: string

datatype client_call = Connect | ReadHoldingRegisters | Close

text \<open>
  The process state: the two globals, the loop's local flag, and the calls made on
  \<open>modbus_client\<close> so far, oldest first.
\<close>

record state =
  sensor_data :: reading_dict
  shutdown_flag :: bool
  first_connection :: bool
  client_calls :: "client_call list"

definition initial_state :: state where
  "initial_state =
     \<lparr>sensor_data = initial_sensor_data, shutdown_flag = False,
      first_connection = True, client_calls = []\<rparr>"

definition call :: "client_call \<Rightarrow> state \<Rightarrow> state" where
  "call c s = s\<lparr>client_calls := client_calls s @ [c]\<rparr>"

text \<open>\<open>sensor_data['status'] = v\<close>: the dictionary is updated in place, one key.\<close>

definition set_status :: "string \<Rightarrow> state \<Rightarrow> state" where
  "set_status v s = s\<lparr>sensor_data := (sensor_data s)\<lparr>status := v\<rparr>\<rparr>"

text \<open>\<open>modbus_client.close()\<close> at line 830, the last statement of the \<open>try\<close> block.\<close>

definition close_client :: "cycle_io \<Rightarrow> state \<Rightarrow> state \<times> fault option" where
  "close_client io s =
     (case close_io io of
        CloseReturns \<Rightarrow> (call Close s, None)
      | CloseRaises m \<Rightarrow> (call Close s, Some (Raised m)))"

text \<open>
  The \<open>try\<close> block, lines 775-834.  It returns the state it has reached and the
  exception that left it, if any: assignments made before a raise stay made.
\<close>

definition try_block :: "cycle_io \<Rightarrow> state \<Rightarrow> state \<times> fault option" where
  "try_block io s =
     (let s1 = call Connect s in
      case connect_io io of
        ConnectRaises m \<Rightarrow> (s1, Some (Raised m))
      | ConnectFalse \<Rightarrow> (set_status ''Connection Failed'' s1, None)
      | ConnectTrue \<Rightarrow>
          (let s2 = call ReadHoldingRegisters s1 in
           case read_io io of
             ReadRaises m \<Rightarrow> (s2, Some (Raised m))
           | IsError \<Rightarrow> close_client io (set_status ''Modbus Error'' s2)
           | Registers raw \<Rightarrow>
               (case decode raw (now_io io) of
                  Inl e \<Rightarrow> (s2, Some e)
                | Inr d \<Rightarrow>
                    close_client io (s2\<lparr>sensor_data := d, first_connection := False\<rparr>))))"

text \<open>The \<open>try\<close> statement with its handler \<open>except Exception as e\<close>, lines 774-839.\<close>

definition read_cycle :: "cycle_io \<Rightarrow> state \<Rightarrow> state" where
  "read_cycle io s =
     (case try_block io s of
        (s', None) \<Rightarrow> s'
      | (s', Some e) \<Rightarrow> set_status (''Error: '' @ fault_str e) s')"

text \<open>
  \<open>while True\<close>: the loop never ends, so a run of the reader thread is the state after
  the iterations made so far, one \<open>cycle_io\<close> per iteration.
\<close>

fun read_sensor_data :: "cycle_io list \<Rightarrow> state \<Rightarrow> state" where
  "read_sensor_data [] s = s"
| "read_sensor_data (io # ios) s = read_sensor_data ios (read_cycle io s)"

section \<open>The HTTP handlers\<close>

text \<open>\<open>get_data\<close> serialises the dictionary \<open>sensor_data\<close> refers to; JSON encoding is not modelled.\<close>

definition get_data :: "state \<Rightarrow> reading_dict" where
  "get_data s = sensor_data s"

text \<open>\<open>shutdown\<close> returns the value of the key \<open>status\<close> of its JSON object.\<close>

definition shutdown :: "state \<Rightarrow> string" where
  "shutdown s = (if shutdown_flag s then ''shutting_down'' else ''running'')"

section \<open>Paths of one iteration\<close>

text \<open>
  The paths through the \<open>try\<close> statement that end without running the assignment
  \<open>sensor_data = {...}\<close> of line 811, each with the string the iteration leaves under
  the key \<open>status\<close> (lines 826, 832 and 837); \<open>None\<close> on the paths that run the
  assignment.
\<close>

definition failure_tag :: "cycle_io \<Rightarrow> string option" where
  "failure_tag io =
     (case connect_io io of
        ConnectFalse \<Rightarrow> Some ''Connection Failed''
      | ConnectRaises m \<Rightarrow> Some (''Error: '' @ m)
      | ConnectTrue \<Rightarrow>
          (case read_io io of
             ReadRaises m \<Rightarrow> Some (''Error: '' @ m)
           | IsError \<Rightarrow>
               (case close_io io of
                  CloseReturns \<Rightarrow> Some ''Modbus Error''
                | CloseRaises m \<Rightarrow> Some (''Error: '' @ m))
           | Registers raw \<Rightarrow>
               (case decode raw (now_io io) of
                  Inl e \<Rightarrow> Some (''Error: '' @ fault_str e)
                | Inr d \<Rightarrow> None)))"

section \<open>The main thread (\<open>main\<close>, lines 873-989)\<close>

text \<open>
  The main thread is in the start-up part of \<open>main\<close> (lines 874-979), or in the loop
  inside the last \<open>try\<close> (lines 980-982), or in the \<open>KeyboardInterrupt\<close> handler
  (lines 983-989, where it sleeps three seconds), or it has ended, and the daemon
  threads with it.  A \<open>KeyboardInterrupt\<close> is raised in the main thread: inside the
  last \<open>try\<close> the handler assigns \<open>shutdown_flag = True\<close>, anywhere else nothing
  catches it and the process ends.  \<open>flag_writes\<close> counts the executions of the
  assignment of line 985, the only assignment to \<open>shutdown_flag\<close> after its
  initialisation.  The reader thread makes its iterations at any moment of the run.
\<close>

datatype main_phase = Startup | Serving | Grace | Exited

datatype event = StartupDone | KeyboardInterrupt | GraceElapsed | ReaderCycle cycle_io

record process =
  globals :: state
  main_thread :: main_phase
  flag_writes :: nat

definition initial_process :: process where
  "initial_process = \<lparr>globals = initial_state, main_thread = Startup, flag_writes = 0\<rparr>"

definition interrupt :: "process \<Rightarrow> process" where
  "interrupt p =
     (case main_thread p of
        Serving \<Rightarrow>
          p\<lparr>globals := (globals p)\<lparr>shutdown_flag := True\<rparr>, main_thread := Grace,
            flag_writes := Suc (flag_writes p)\<rparr>
      | _ \<Rightarrow> p\<lparr>main_thread := Exited\<rparr>)"

definition step :: "event \<Rightarrow> process \<Rightarrow> process" where
  "step ev p =
     (if main_thread p = Exited then p
      else case ev of
        StartupDone \<Rightarrow> (if main_thread p = Startup then p\<lparr>main_thread := Serving\<rparr> else p)
      | KeyboardInterrupt \<Rightarrow> interrupt p
      | GraceElapsed \<Rightarrow> (if main_thread p = Grace then p\<lparr>main_thread := Exited\<rparr> else p)
      | ReaderCycle io \<Rightarrow> p\<lparr>globals := read_cycle io (globals p)\<rparr>)"

fun run :: "event list \<Rightarrow> process \<Rightarrow> process" where
  "run [] p = p"
| "run (ev # evs) p = run evs (step ev p)"

text \<open>The flag is set exactly when line 985 has run, which is once, and then the main
  thread is in the handler or has ended.\<close>

definition flag_inv :: "process \<Rightarrow> bool" where
  "flag_inv p \<longleftrightarrow>
     flag_writes p = (if shutdown_flag (globals p) then 1 else 0) \<and>
     (shutdown_flag (globals p) \<longrightarrow> main_thread p = Grace \<or> main_thread p = Exited)"

section \<open>Properties of binary64 rounding\<close>

lemma round_even_cases: "round_even q = \<lfloor>q\<rfloor> \<or> round_even q = \<lfloor>q\<rfloor> + 1"
  by (simp add: round_even_def Let_def)

lemma round_even_error: "\<bar>of_int (round_even q) - q\<bar> \<le> 1 / 2"
proof -
  have "of_int \<lfloor>q\<rfloor> \<le> q" "q < of_int \<lfloor>q\<rfloor> + 1" by linarith+
  then show ?thesis
    by (auto simp: round_even_def Let_def abs_le_iff)
qed

lemma round_even_of_int: "round_even (of_int n) = n"
  by (simp add: round_even_def)

lemma round_even_mono:
  assumes "q \<le> q'" shows "round_even q \<le> round_even q'"
proof (cases "\<lfloor>q\<rfloor> = \<lfloor>q'\<rfloor>")
  case True
  with assms show ?thesis
    by (auto simp: round_even_def Let_def)
next
  case False
  with assms have "\<lfloor>q\<rfloor> + 1 \<le> \<lfloor>q'\<rfloor>"
    using floor_mono [OF assms] by linarith
  moreover have "round_even q \<le> \<lfloor>q\<rfloor> + 1" using round_even_cases [of q] by auto
  moreover have "\<lfloor>q'\<rfloor> \<le> round_even q'" using round_even_cases [of q'] by auto
  ultimately show ?thesis by linarith
qed

lemma bexp_bounds:
  assumes "x \<noteq> 0"
  shows "2 powi bexp x \<le> \<bar>x\<bar>" and "\<bar>x\<bar> < 2 powi (bexp x + 1)"
proof -
  obtain p q where pq: "quotient_of \<bar>x\<bar> = (p, q)" by (cases "quotient_of \<bar>x\<bar>")
  then have q: "0 < q" and x: "\<bar>x\<bar> = of_int p / of_int q"
    using quotient_of_denom_pos quotient_of_div by blast+
  have "0 < \<bar>x\<bar>" using assms by simp
  then have "(0::rat) < of_int p / of_int q" by (simp only: x)
  with q have p: "0 < p" by (simp add: zero_less_divide_iff)
  define d where "d = bitlen p - bitlen q"
  have bp: "1 \<le> bitlen p" and bq: "1 \<le> bitlen q"
    using p q by (simp_all add: bitlen_alt_def)
  have p1: "(2::rat) powi (bitlen p - 1) \<le> of_int p" and p2: "of_int p < (2::rat) powi bitlen p"
  proof -
    have "2 ^ nat (bitlen p - 1) \<le> p" "p < 2 ^ nat (bitlen p)"
      using bitlen_bounds [OF p] by auto
    then have "(of_int (2 ^ nat (bitlen p - 1)) :: rat) \<le> of_int p" "(of_int p :: rat) < of_int (2 ^ nat (bitlen p))"
      by (simp_all only: of_int_le_iff of_int_less_iff)
    then show "(2::rat) powi (bitlen p - 1) \<le> of_int p" "of_int p < (2::rat) powi bitlen p"
      using bp by (simp_all add: power_int_def)
  qed
  have q1: "(2::rat) powi (bitlen q - 1) \<le> of_int q" and q2: "of_int q < (2::rat) powi bitlen q"
  proof -
    have "2 ^ nat (bitlen q - 1) \<le> q" "q < 2 ^ nat (bitlen q)"
      using bitlen_bounds [OF q] by auto
    then have "(of_int (2 ^ nat (bitlen q - 1)) :: rat) \<le> of_int q" "(of_int q :: rat) < of_int (2 ^ nat (bitlen q))"
      by (simp_all only: of_int_le_iff of_int_less_iff)
    then show "(2::rat) powi (bitlen q - 1) \<le> of_int q" "of_int q < (2::rat) powi bitlen q"
      using bq by (simp_all add: power_int_def)
  qed
  have qpos: "(0::rat) < of_int q" using q by simp
  have lo: "2 powi (d - 1) < \<bar>x\<bar>"
  proof -
    have "(2::rat) powi (d - 1) * of_int q < 2 powi (d - 1) * 2 powi bitlen q"
      using q2 by (simp add: mult_strict_left_mono)
    also have "\<dots> = 2 powi (bitlen p - 1)"
      by (simp add: d_def power_int_add [symmetric])
    also have "\<dots> \<le> of_int p" by (rule p1)
    finally show ?thesis using qpos by (simp add: x pos_less_divide_eq)
  qed
  have hi: "\<bar>x\<bar> < 2 powi (d + 1)"
  proof -
    have "of_int p < (2::rat) powi bitlen p" by (rule p2)
    also have "\<dots> = 2 powi (d + 1) * 2 powi (bitlen q - 1)"
      by (simp add: d_def power_int_add [symmetric])
    also have "\<dots> \<le> 2 powi (d + 1) * of_int q"
      using q1 by (simp add: mult_left_mono)
    finally show ?thesis using qpos by (simp add: x pos_divide_less_eq)
  qed
  have b: "bexp x = (if 2 powi d \<le> \<bar>x\<bar> then d else d - 1)"
    by (simp add: bexp_def pq d_def Let_def)
  show "2 powi bexp x \<le> \<bar>x\<bar>" using lo by (simp add: b)
  show "\<bar>x\<bar> < 2 powi (bexp x + 1)" using hi by (auto simp add: b not_le)
qed

lemma ulp_pos: "0 < ulp x"
  by (simp add: ulp_def)

lemma pow2_split: "(2::rat) powi a = 2 powi (a - int n) * 2 ^ n"
proof -
  have "(2::rat) powi (a - int n + int n) = 2 powi (a - int n) * 2 powi int n"
    by (rule power_int_add) simp
  then show ?thesis by simp
qed

lemma pow2_less_imp: "(2::rat) powi a < 2 powi b \<Longrightarrow> a < b"
  using power_int_increasing [of b a "2::rat"] by (cases "a < b") auto

lemma bexp_unique:
  assumes "2 powi e \<le> \<bar>x\<bar>" and "\<bar>x\<bar> < 2 powi (e + 1)"
  shows "bexp x = e"
proof -
  have "(0::rat) < 2 powi e" by simp
  with assms(1) have "0 < \<bar>x\<bar>" by linarith
  then have "x \<noteq> 0" by auto
  note b = bexp_bounds [OF this]
  have "(2::rat) powi e < 2 powi (bexp x + 1)" using assms(1) b(2) by linarith
  moreover have "(2::rat) powi bexp x < 2 powi (e + 1)" using assms(2) b(1) by linarith
  ultimately have "e < bexp x + 1" "bexp x < e + 1" by (auto dest: pow2_less_imp)
  then show ?thesis by linarith
qed

lemma bexp_mono:
  assumes "0 < x" and "x \<le> y"
  shows "bexp x \<le> bexp y"
proof -
  have "x \<noteq> 0" "y \<noteq> 0" using assms by auto
  then have "2 powi bexp x \<le> \<bar>x\<bar>" "\<bar>y\<bar> < 2 powi (bexp y + 1)"
    by (simp_all add: bexp_bounds)
  with assms have "(2::rat) powi bexp x < 2 powi (bexp y + 1)" by linarith
  then show ?thesis using pow2_less_imp by fastforce
qed

lemma rnd_error:
  assumes "x \<noteq> 0"
  shows "\<bar>rnd x - x\<bar> \<le> ulp x / 2"
proof -
  have "\<bar>rnd x - x\<bar> = \<bar>of_int (round_even (x / ulp x)) - x / ulp x\<bar> * ulp x"
  proof -
    have "rnd x - x = (of_int (round_even (x / ulp x)) - x / ulp x) * ulp x"
      using assms ulp_pos [of x] by (simp add: rnd_def field_simps)
    then show ?thesis using ulp_pos [of x] by (simp add: abs_mult)
  qed
  also have "\<dots> \<le> 1 / 2 * ulp x"
    using round_even_error [of "x / ulp x"] ulp_pos [of x] by (intro mult_right_mono) simp_all
  finally show ?thesis by simp
qed

lemma ulp_normal:
  assumes "- 1022 \<le> bexp x" and "x \<noteq> 0"
  shows "ulp x \<le> \<bar>x\<bar> / 2 ^ 52"
proof -
  have "ulp x = 2 powi bexp x / 2 ^ 52"
    using assms(1) by (simp add: ulp_def max_def power_int_diff)
  also have "\<dots> \<le> \<bar>x\<bar> / 2 ^ 52"
    using bexp_bounds(1) [OF assms(2)] by (simp add: divide_right_mono)
  finally show ?thesis .
qed

lemma rnd_rel_error:
  assumes "- 1022 \<le> bexp x" and "x \<noteq> 0"
  shows "\<bar>rnd x - x\<bar> \<le> \<bar>x\<bar> / 2 ^ 53"
proof -
  have "\<bar>rnd x - x\<bar> \<le> ulp x / 2" by (rule rnd_error [OF assms(2)])
  also have "\<dots> \<le> (\<bar>x\<bar> / 2 ^ 52) / 2" using ulp_normal [OF assms] by simp
  finally show ?thesis by simp
qed

lemma rnd_dyadic:
  assumes "\<bar>m\<bar> < 2 ^ 53" and "- 1074 \<le> k"
  shows "rnd (of_int m * 2 powi k) = of_int m * 2 powi k"
proof (cases "m = 0")
  case True
  then show ?thesis by (simp add: rnd_def)
next
  case False
  define x :: rat where "x = of_int m * 2 powi k"
  define e where "e = max (bexp x) (- 1022)"
  have x0: "x \<noteq> 0" using False by (simp add: x_def)
  have absx: "\<bar>x\<bar> = of_int \<bar>m\<bar> * 2 powi k" by (simp add: x_def abs_mult)
  have le: "e - 52 \<le> k"
  proof (cases "bexp x \<le> - 1022")
    case True
    then show ?thesis using assms(2) by (simp add: e_def max_def)
  next
    case False
    have "(of_int \<bar>m\<bar> :: rat) < of_int (2 ^ 53)" using assms(1) by (simp only: of_int_less_iff)
    then have "(of_int \<bar>m\<bar> :: rat) < 2 powi 53" by simp
    then have "\<bar>x\<bar> < 2 powi 53 * 2 powi k"
      unfolding absx by (intro mult_strict_right_mono) simp_all
    then have "\<bar>x\<bar> < 2 powi (53 + k)" by (simp add: power_int_add)
    with bexp_bounds(1) [OF x0] have "(2::rat) powi bexp x < 2 powi (53 + k)" by linarith
    then have "bexp x < 53 + k" by (rule pow2_less_imp)
    with False show ?thesis by (simp add: e_def max_def)
  qed
  define j where "j = nat (k - (e - 52))"
  have u: "ulp x = 2 powi (e - 52)" by (simp add: ulp_def e_def)
  have "2 powi k = (2::rat) powi (e - 52) * 2 ^ j"
  proof -
    have "k = (e - 52) + int j" using le by (simp add: j_def)
    then have "(2::rat) powi k = 2 powi (e - 52) * 2 powi (int j)"
      by (metis power_int_add zero_neq_numeral)
    then show ?thesis by simp
  qed
  then have xeq: "x = of_int m * (2 powi (e - 52) * 2 ^ j)" by (simp only: x_def)
  have "x / ulp x = x / 2 powi (e - 52)" by (simp only: u)
  also have "\<dots> = of_int m * (2 powi (e - 52) * 2 ^ j) / 2 powi (e - 52)"
    by (simp only: xeq [symmetric])
  also have "\<dots> = of_int (m * 2 ^ j)" by simp
  finally have q: "x / ulp x = of_int (m * 2 ^ j)" .
  have "rnd x = of_int (round_even (x / ulp x)) * ulp x" using x0 by (simp add: rnd_def)
  also have "\<dots> = x / ulp x * ulp x" by (simp only: q round_even_of_int)
  also have "\<dots> = x" using ulp_pos [of x] by simp
  finally show ?thesis by (simp add: x_def)
qed

lemma rnd_of_int:
  assumes "\<bar>n\<bar> < 2 ^ 53"
  shows "rnd (of_int n) = of_int n"
  using rnd_dyadic [OF assms, of 0] by simp

lemma rnd_nonneg:
  assumes "0 \<le> x" shows "0 \<le> rnd x"
proof (cases "x = 0")
  case True then show ?thesis by (simp add: rnd_def)
next
  case False
  have "0 \<le> x / ulp x" using assms ulp_pos [of x] by simp
  then have "round_even 0 \<le> round_even (x / ulp x)" by (rule round_even_mono)
  moreover have "round_even 0 = 0" using round_even_of_int [of 0] by simp
  ultimately show ?thesis using False ulp_pos [of x] by (simp add: rnd_def)
qed

lemma rnd_upper:
  assumes "0 < x"
  shows "rnd x \<le> 2 powi (max (bexp x) (- 1022) + 1)"
proof -
  define e where "e = max (bexp x) (- 1022)"
  have u: "ulp x = 2 powi (e - 52)" by (simp add: ulp_def e_def)
  have "x < 2 powi (bexp x + 1)" using bexp_bounds(2) [of x] assms by simp
  also have "\<dots> \<le> 2 powi (e + 1)" by (intro power_int_increasing) (simp_all add: e_def)
  finally have "x < 2 powi (e + 1)" .
  moreover have "(2::rat) powi (e + 1) = 2 powi (e - 52) * 2 powi 53"
    using pow2_split [of "e + 1" 53] by simp
  ultimately have "x / ulp x \<le> of_int (2 ^ 53)"
    using ulp_pos [of x] by (simp add: u pos_divide_le_eq mult.commute)
  then have "round_even (x / ulp x) \<le> round_even (of_int (2 ^ 53))" by (rule round_even_mono)
  then have "round_even (x / ulp x) \<le> 2 ^ 53" by (simp only: round_even_of_int)
  then have "(of_int (round_even (x / ulp x)) :: rat) \<le> of_int (2 ^ 53)" by (simp only: of_int_le_iff)
  then have "of_int (round_even (x / ulp x)) * ulp x \<le> of_int (2 ^ 53) * ulp x"
    using ulp_pos [of x] by (intro mult_right_mono) simp_all
  also have "\<dots> = 2 powi (e + 1)"
    by (simp add: u \<open>(2::rat) powi (e + 1) = 2 powi (e - 52) * 2 powi 53\<close>)
  finally show ?thesis using assms by (simp add: rnd_def e_def)
qed

lemma rnd_lower:
  assumes "0 < x" and "- 1022 \<le> bexp x"
  shows "2 powi bexp x \<le> rnd x"
proof -
  have u: "ulp x = 2 powi (bexp x - 52)" using assms(2) by (simp add: ulp_def max_def)
  have e: "(2::rat) powi bexp x = 2 powi (bexp x - 52) * 2 powi 52"
    using pow2_split [of "bexp x" 52] by simp
  have "2 powi bexp x \<le> x" using bexp_bounds(1) [of x] assms(1) by simp
  then have "of_int (2 ^ 52) \<le> x / ulp x"
    using ulp_pos [of x] by (simp add: u e pos_le_divide_eq mult.commute)
  then have "round_even (of_int (2 ^ 52)) \<le> round_even (x / ulp x)" by (rule round_even_mono)
  then have "2 ^ 52 \<le> round_even (x / ulp x)" by (simp only: round_even_of_int)
  then have "(of_int (2 ^ 52) :: rat) \<le> of_int (round_even (x / ulp x))" by (simp only: of_int_le_iff)
  then have "of_int (2 ^ 52) * ulp x \<le> of_int (round_even (x / ulp x)) * ulp x"
    using ulp_pos [of x] by (intro mult_right_mono) simp_all
  moreover have "of_int (2 ^ 52) * ulp x = 2 powi bexp x" by (simp add: u e)
  ultimately show ?thesis using assms(1) by (simp add: rnd_def)
qed

lemma rnd_mono:
  assumes "0 \<le> x" and "x \<le> y"
  shows "rnd x \<le> rnd y"
proof (cases "x = 0")
  case True
  then show ?thesis using rnd_nonneg [of y] assms by (simp add: rnd_def)
next
  case False
  with assms have x: "0 < x" and y: "0 < y" by auto
  have b: "bexp x \<le> bexp y" using bexp_mono [OF x assms(2)] .
  show ?thesis
  proof (cases "max (bexp x) (- 1022) = max (bexp y) (- 1022)")
    case True
    then have u: "ulp x = ulp y" by (simp add: ulp_def)
    have "x / ulp y \<le> y / ulp y" using assms(2) ulp_pos [of y] by (simp add: divide_right_mono)
    then have "round_even (x / ulp y) \<le> round_even (y / ulp y)" by (rule round_even_mono)
    then have "(of_int (round_even (x / ulp y)) :: rat) \<le> of_int (round_even (y / ulp y))"
      by (simp only: of_int_le_iff)
    then have "of_int (round_even (x / ulp y)) * ulp y \<le> of_int (round_even (y / ulp y)) * ulp y"
      using ulp_pos [of y] by (intro mult_right_mono) simp_all
    then show ?thesis using x y by (simp add: rnd_def u)
  next
    case False
    with b have lt: "max (bexp x) (- 1022) < bexp y" and n: "- 1022 \<le> bexp y" by auto
    have "rnd x \<le> 2 powi (max (bexp x) (- 1022) + 1)" by (rule rnd_upper [OF x])
    also have "\<dots> \<le> 2 powi bexp y"
    proof -
      have "max (bexp x) (- 1022) + 1 \<le> bexp y" using lt by linarith
      then show ?thesis by (rule power_int_increasing) simp
    qed
    also have "\<dots> \<le> rnd y" by (rule rnd_lower [OF y n])
    finally show ?thesis .
  qed
qed

lemma bexp_ge:
  assumes "2 powi k \<le> \<bar>x\<bar>" shows "k \<le> bexp x"
proof -
  have "(0::rat) < 2 powi k" by simp
  with assms have "0 < \<bar>x\<bar>" by linarith
  then have "x \<noteq> 0" by auto
  from bexp_bounds(2) [OF this] assms have "(2::rat) powi k < 2 powi (bexp x + 1)" by linarith
  then have "k < bexp x + 1" by (rule pow2_less_imp)
  then show ?thesis by simp
qed

lemma rnd_quotient_error:
  assumes "0 < n" and "0 < (d::int)" and "d \<le> 100"
  shows "\<bar>rnd (of_int n / of_int d) - of_int n / of_int d\<bar> \<le> (of_int n / of_int d) / 2 ^ 53"
proof -
  define x :: rat where "x = of_int n / of_int d"
  have x: "0 < x" using assms by (simp add: x_def)
  have n1: "(1::rat) \<le> of_int n" using assms(1) by simp
  have d0: "(0::rat) < of_int d" and d100: "(of_int d :: rat) \<le> 100" using assms by simp_all
  have "(1::rat) / 100 \<le> 1 / of_int d" using d0 d100 by (simp add: frac_le)
  also have "\<dots> \<le> of_int n / of_int d" using n1 d0 by (simp add: divide_right_mono)
  finally have "1 / 100 \<le> x" by (simp add: x_def)
  then have "2 powi (- 7) \<le> \<bar>x\<bar>" using x by (simp add: power_int_minus)
  then have "- 7 \<le> bexp x" by (rule bexp_ge)
  then have "\<bar>rnd x - x\<bar> \<le> \<bar>x\<bar> / 2 ^ 53" using x by (intro rnd_rel_error) simp_all
  then show ?thesis using x by (simp add: x_def)
qed

lemma rnd_quotient_error0:
  assumes "0 \<le> n" and "0 < (d::int)" and "d \<le> 100"
  shows "\<bar>rnd (of_int n / of_int d) - of_int n / of_int d\<bar> \<le> (of_int n / of_int d) / 2 ^ 53"
proof (cases "n = 0")
  case True
  then show ?thesis by (simp add: rnd_def)
next
  case False
  with assms(1) have "0 < n" by simp
  then show ?thesis using assms(2,3) by (rule rnd_quotient_error)
qed

section \<open>Properties of the decoding block\<close>

lemma decode_scaled:
  assumes "5 \<le> length raw" and "1000 < uint (raw ! 0)"
  shows "decode raw now =
    Inr \<lparr>humidity = rnd (float_of_int (uint (raw ! 0)) / 100),
         temp_c = rnd (float_of_int (uint (raw ! 1)) / 20),
         temp_f = rnd (float_of_int (uint (raw ! 2)) / 20),
         dewpoint_c = rnd (float_of_int (uint (raw ! 3)) / 100),
         dewpoint_f = rnd (float_of_int (uint (raw ! 4)) / 100),
         dewpoint_spread = fsub (rnd (float_of_int (uint (raw ! 1)) / 20))
                                (rnd (float_of_int (uint (raw ! 3)) / 100)),
         timestamp = now, status = ''Online'', raw_values = raw\<rparr>"
proof -
  from assms(1) obtain a b c d e rest where raw: "raw = a # b # c # d # e # rest"
    by (auto simp: numeral_eq_Suc Suc_le_length_iff)
  show ?thesis
    using assms(2)
    by (simp add: raw decode_def scaled_def getitem_def truediv_def and_then_def)
qed

lemma decode_unscaled:
  assumes "5 \<le> length raw" and "\<not> 1000 < uint (raw ! 0)"
  shows "decode raw now =
    Inr \<lparr>humidity = float_of_int (uint (raw ! 0)),
         temp_c = float_of_int (uint (raw ! 1)),
         temp_f = float_of_int (uint (raw ! 2)),
         dewpoint_c = float_of_int (uint (raw ! 3)),
         dewpoint_f = float_of_int (uint (raw ! 4)),
         dewpoint_spread = fsub (float_of_int (uint (raw ! 1)))
                                (float_of_int (uint (raw ! 3))),
         timestamp = now, status = ''Online'', raw_values = raw\<rparr>"
proof -
  from assms(1) obtain a b c d e rest where raw: "raw = a # b # c # d # e # rest"
    by (auto simp: numeral_eq_Suc Suc_le_length_iff)
  show ?thesis
    using assms(2)
    by (simp add: raw decode_def unscaled_def getitem_def and_then_def)
qed

lemma float_of_register: "float_of_int (uint (r :: register)) = of_int (uint r)"
proof -
  have "uint r < 2 ^ 16" using uint_bounded [of r] by simp
  moreover have "0 \<le> uint r" by simp
  ultimately have "\<bar>uint r\<bar> < 2 ^ 53" by simp
  then show ?thesis unfolding float_of_int_def by (rule rnd_of_int)
qed

lemma fsub_registers:
  "fsub (of_int (uint (a :: register))) (of_int (uint (b :: register))) = of_int (uint a) - of_int (uint b)"
proof -
  have b: "uint a < 65536" "uint b < 65536"
    using uint_bounded [of a] uint_bounded [of b] by simp_all
  have n: "0 \<le> uint a" "0 \<le> uint b" by simp_all
  from b n have "\<bar>uint a - uint b\<bar> < 9007199254740992" by linarith
  then have "\<bar>uint a - uint b\<bar> < 2 ^ 53" by simp
  then have "rnd (of_int (uint a - uint b)) = of_int (uint a - uint b)" by (rule rnd_of_int)
  then show ?thesis by (simp add: fsub_def)
qed

lemma register_error:
  "\<bar>rnd (of_int (uint (r::register)) / 100) - of_int (uint r) / 100\<bar> \<le> of_int (uint r) / 100 / 2 ^ 53"
  "\<bar>rnd (of_int (uint (r::register)) / 20) - of_int (uint r) / 20\<bar> \<le> of_int (uint r) / 20 / 2 ^ 53"
  using rnd_quotient_error0 [of "uint r" 100] rnd_quotient_error0 [of "uint r" 20]
  by (simp_all del: of_int_uint)

lemma decode5_scaled:
  assumes "1000 < uint r0"
  shows "decode [r0, r1, r2, r3, r4] now =
    Inr \<lparr>humidity = rnd (of_int (uint r0) / 100),
         temp_c = rnd (of_int (uint r1) / 20),
         temp_f = rnd (of_int (uint r2) / 20),
         dewpoint_c = rnd (of_int (uint r3) / 100),
         dewpoint_f = rnd (of_int (uint r4) / 100),
         dewpoint_spread = fsub (rnd (of_int (uint r1) / 20)) (rnd (of_int (uint r3) / 100)),
         timestamp = now, status = ''Online'', raw_values = [r0, r1, r2, r3, r4]\<rparr>"
  using assms decode_scaled [of "[r0, r1, r2, r3, r4]" now]
  by (simp add: float_of_register del: of_int_uint)

lemma decode5_unscaled:
  assumes "uint r0 \<le> 1000"
  shows "decode [r0, r1, r2, r3, r4] now =
    Inr \<lparr>humidity = of_int (uint r0), temp_c = of_int (uint r1), temp_f = of_int (uint r2),
         dewpoint_c = of_int (uint r3), dewpoint_f = of_int (uint r4),
         dewpoint_spread = of_int (uint r1) - of_int (uint r3),
         timestamp = now, status = ''Online'', raw_values = [r0, r1, r2, r3, r4]\<rparr>"
  using assms decode_unscaled [of "[r0, r1, r2, r3, r4]" now]
  by (simp add: float_of_register fsub_registers del: of_int_uint)

lemma scenario_values:
  "rnd (4550 / 100) = 455 / 10" "rnd (440 / 20) = 22" "rnd (1124 / 20) = rnd (562 / 10)"
  "rnd (1890 / 100) = rnd (189 / 10)"
  "fsub 22 (rnd (189 / 10)) = 22 - rnd (189 / 10)"
  "\<bar>22 - rnd (189 / 10) - 310 / 100\<bar> < 1 / 10 ^ 14"
  by code_simp+

lemma humidity_bounds:
  "10 < rnd (1001 / 100)" "\<bar>rnd (65535 / 100) - 65535 / 100\<bar> < 1 / 10 ^ 13"
  by code_simp+

text \<open>
  C1.  Scaled branch.  For five 16-bit registers with \<open>registers[0] > 1000\<close> the
  decoding block produces humidity = registers[0] / 100.0, temp_c = registers[1] / 20.0,
  temp_f = registers[2] / 20.0, dewpoint_c = registers[3] / 100.0 and
  dewpoint_f = registers[4] / 100.0, where \<open>/\<close> is binary64 division: each field is
  the exact quotient rounded to the nearest binary64 number, so it differs from the
  exact quotient by at most the fraction \<open>1 / 2 ^ 53\<close> of it.  In particular
  \<open>[4550, 440, 1124, 1890, 3362]\<close> decodes to humidity 45.50 and temp_c 22.00 exactly,
  to the binary64 numbers written 56.20, 18.90 and 33.62 for temp_f, dewpoint_c and
  dewpoint_f, and to the spread 22.00 - 18.90 computed in binary64, which is 3.10 to
  within \<open>1 / 10 ^ 14\<close>.
\<close>

theorem decode_scaled_fields:
  "(1000 < uint r0 \<longrightarrow>
      (\<exists>d. decode [r0, r1, r2, r3, r4] now = Inr d \<and>
           humidity d = rnd (of_int (uint r0) / 100) \<and>
           temp_c d = rnd (of_int (uint r1) / 20) \<and>
           temp_f d = rnd (of_int (uint r2) / 20) \<and>
           dewpoint_c d = rnd (of_int (uint r3) / 100) \<and>
           dewpoint_f d = rnd (of_int (uint r4) / 100) \<and>
           dewpoint_spread d = fsub (temp_c d) (dewpoint_c d) \<and>
           \<bar>humidity d - of_int (uint r0) / 100\<bar> \<le> of_int (uint r0) / 100 / 2 ^ 53 \<and>
           \<bar>temp_c d - of_int (uint r1) / 20\<bar> \<le> of_int (uint r1) / 20 / 2 ^ 53 \<and>
           \<bar>temp_f d - of_int (uint r2) / 20\<bar> \<le> of_int (uint r2) / 20 / 2 ^ 53 \<and>
           \<bar>dewpoint_c d - of_int (uint r3) / 100\<bar> \<le> of_int (uint r3) / 100 / 2 ^ 53 \<and>
           \<bar>dewpoint_f d - of_int (uint r4) / 100\<bar> \<le> of_int (uint r4) / 100 / 2 ^ 53)) \<and>
   decode [4550, 440, 1124, 1890, 3362] now =
     Inr \<lparr>humidity = 4550 / 100, temp_c = 22, temp_f = rnd (5620 / 100),
          dewpoint_c = rnd (1890 / 100), dewpoint_f = rnd (3362 / 100),
          dewpoint_spread = 22 - rnd (1890 / 100),
          timestamp = now, status = ''Online'',
          raw_values = [4550, 440, 1124, 1890, 3362]\<rparr> \<and>
   \<bar>(22 - rnd (1890 / 100)) - 310 / 100\<bar> < 1 / 10 ^ 14"
proof (intro conjI impI)
  assume "1000 < uint r0"
  then show "\<exists>d. decode [r0, r1, r2, r3, r4] now = Inr d \<and>
           humidity d = rnd (of_int (uint r0) / 100) \<and>
           temp_c d = rnd (of_int (uint r1) / 20) \<and>
           temp_f d = rnd (of_int (uint r2) / 20) \<and>
           dewpoint_c d = rnd (of_int (uint r3) / 100) \<and>
           dewpoint_f d = rnd (of_int (uint r4) / 100) \<and>
           dewpoint_spread d = fsub (temp_c d) (dewpoint_c d) \<and>
           \<bar>humidity d - of_int (uint r0) / 100\<bar> \<le> of_int (uint r0) / 100 / 2 ^ 53 \<and>
           \<bar>temp_c d - of_int (uint r1) / 20\<bar> \<le> of_int (uint r1) / 20 / 2 ^ 53 \<and>
           \<bar>temp_f d - of_int (uint r2) / 20\<bar> \<le> of_int (uint r2) / 20 / 2 ^ 53 \<and>
           \<bar>dewpoint_c d - of_int (uint r3) / 100\<bar> \<le> of_int (uint r3) / 100 / 2 ^ 53 \<and>
           \<bar>dewpoint_f d - of_int (uint r4) / 100\<bar> \<le> of_int (uint r4) / 100 / 2 ^ 53"
    by (simp only: decode5_scaled sum.inject simp_thms reading_dict.select_convs
          register_error)
next
  have "1000 < uint (4550 :: register)" by simp
  from decode5_scaled [OF this, of 440 1124 1890 3362 now]
  show "decode [4550, 440, 1124, 1890, 3362] now =
     Inr \<lparr>humidity = 4550 / 100, temp_c = 22, temp_f = rnd (5620 / 100),
          dewpoint_c = rnd (1890 / 100), dewpoint_f = rnd (3362 / 100),
          dewpoint_spread = 22 - rnd (1890 / 100),
          timestamp = now, status = ''Online'',
          raw_values = [4550, 440, 1124, 1890, 3362]\<rparr>"
    using scenario_values by simp
next
  show "\<bar>(22 - rnd (1890 / 100)) - 310 / 100\<bar> < 1 / 10 ^ 14"
    using scenario_values by simp
qed

theorem decode_scaled_fields_witness:
  "1000 < uint (1001 :: register) \<and>
   (\<exists>d. decode [1001, 0, 65535, 1, 7] ''2024-05-01 12:00:00'' = Inr d \<and>
        humidity d = rnd (1001 / 100) \<and> temp_c d = 0 \<and> dewpoint_c d = rnd (1 / 100))"
proof -
  have h: "1000 < uint (1001 :: register)" by simp
  from decode_scaled_fields [of 1001 0 65535 1 7 "''2024-05-01 12:00:00''"] h
  obtain d where "decode [1001, 0, 65535, 1, 7] ''2024-05-01 12:00:00'' = Inr d"
    "humidity d = rnd (of_int (uint (1001 :: register)) / 100)"
    "temp_c d = rnd (of_int (uint (0 :: register)) / 20)"
    "dewpoint_c d = rnd (of_int (uint (1 :: register)) / 100)"
    by blast
  then show ?thesis using h by (simp add: rnd_def)
qed

text \<open>
  C2.  Unscaled branch.  For five 16-bit registers with \<open>registers[0] \<le> 1000\<close> every
  field is \<open>float\<close> of its register, which is the register's value itself, and the
  spread is the exact difference of two of them.  In particular \<open>[45, 22, 72, 19, 66]\<close>
  decodes to humidity 45.0, temp_c 22.0, temp_f 72.0, dewpoint_c 19.0, dewpoint_f 66.0
  and spread 3.0.
\<close>

theorem decode_unscaled_fields:
  "(uint r0 \<le> 1000 \<longrightarrow>
      decode [r0, r1, r2, r3, r4] now =
        Inr \<lparr>humidity = of_int (uint r0), temp_c = of_int (uint r1),
             temp_f = of_int (uint r2), dewpoint_c = of_int (uint r3),
             dewpoint_f = of_int (uint r4),
             dewpoint_spread = of_int (uint r1) - of_int (uint r3),
             timestamp = now, status = ''Online'',
             raw_values = [r0, r1, r2, r3, r4]\<rparr>) \<and>
   decode [45, 22, 72, 19, 66] now =
     Inr \<lparr>humidity = 45, temp_c = 22, temp_f = 72, dewpoint_c = 19, dewpoint_f = 66,
          dewpoint_spread = 3, timestamp = now, status = ''Online'',
          raw_values = [45, 22, 72, 19, 66]\<rparr>"
proof (intro conjI impI)
  assume "uint r0 \<le> 1000"
  then show "decode [r0, r1, r2, r3, r4] now =
        Inr \<lparr>humidity = of_int (uint r0), temp_c = of_int (uint r1),
             temp_f = of_int (uint r2), dewpoint_c = of_int (uint r3),
             dewpoint_f = of_int (uint r4),
             dewpoint_spread = of_int (uint r1) - of_int (uint r3),
             timestamp = now, status = ''Online'',
             raw_values = [r0, r1, r2, r3, r4]\<rparr>"
    by (rule decode5_unscaled)
next
  have "uint (45 :: register) \<le> 1000" by simp
  from decode5_unscaled [OF this, of 22 72 19 66 now]
  show "decode [45, 22, 72, 19, 66] now =
     Inr \<lparr>humidity = 45, temp_c = 22, temp_f = 72, dewpoint_c = 19, dewpoint_f = 66,
          dewpoint_spread = 3, timestamp = now, status = ''Online'',
          raw_values = [45, 22, 72, 19, 66]\<rparr>"
    by simp
qed

theorem decode_unscaled_fields_witness:
  "uint (1000 :: register) \<le> 1000 \<and>
   decode [1000, 65535, 0, 7, 9] ''2024-05-01 12:00:00'' =
     Inr \<lparr>humidity = 1000, temp_c = 65535, temp_f = 0, dewpoint_c = 7, dewpoint_f = 9,
          dewpoint_spread = 65528, timestamp = ''2024-05-01 12:00:00'', status = ''Online'',
          raw_values = [1000, 65535, 0, 7, 9]\<rparr>"
  using decode_unscaled_fields [of 1000 65535 0 7 9 "''2024-05-01 12:00:00''"] by simp

text \<open>
  C8.  Decoding is total on register blocks of exactly five 16-bit values: for every
  such block and every time stamp the decoding block produces a dictionary, and it
  raises neither \<open>IndexError\<close> nor \<open>ZeroDivisionError\<close> nor anything else.
\<close>

theorem decode_total:
  "length raw = 5 \<longrightarrow> (\<exists>d. decode raw now = Inr d) \<and> (\<forall>e. decode raw now \<noteq> Inl e)"
proof (cases "1000 < uint (raw ! 0)")
  case True
  then show ?thesis by (simp add: decode_scaled)
next
  case False
  then show ?thesis by (simp add: decode_unscaled)
qed

theorem decode_total_witness:
  "length [45, 22, 72, 19, 66 :: register] = 5 \<and>
   (\<exists>d. decode [45, 22, 72, 19, 66] ''2024-01-01 00:00:00'' = Inr d)"
  using decode_total [of "[45, 22, 72, 19, 66]" "''2024-01-01 00:00:00''"] by simp

text \<open>
  C9.  Whenever the decoding block produces a dictionary, in either branch and for a
  register list of any length, its \<open>dewpoint_spread\<close> is \<open>temp_c - dewpoint_c\<close> of the
  same dictionary, the subtraction being the binary64 one of Python: the spread is
  computed from the two decoded fields and from nothing else.
\<close>

theorem spread_is_difference:
  "decode raw now = Inr d \<longrightarrow> dewpoint_spread d = fsub (temp_c d) (dewpoint_c d)"
  by (auto simp: decode_def and_then_def split: sum.splits if_splits prod.splits)

theorem spread_is_difference_witness:
  "decode [4550, 440, 1124, 1890, 3362] ''2024-05-01 12:00:00'' =
     Inr \<lparr>humidity = 4550 / 100, temp_c = 22, temp_f = rnd (5620 / 100),
          dewpoint_c = rnd (1890 / 100), dewpoint_f = rnd (3362 / 100),
          dewpoint_spread = 22 - rnd (1890 / 100),
          timestamp = ''2024-05-01 12:00:00'', status = ''Online'',
          raw_values = [4550, 440, 1124, 1890, 3362]\<rparr> \<and>
   22 - rnd (1890 / 100) = fsub 22 (rnd (1890 / 100))"
proof -
  have d: "decode [4550, 440, 1124, 1890, 3362] ''2024-05-01 12:00:00'' =
     Inr \<lparr>humidity = 4550 / 100, temp_c = 22, temp_f = rnd (5620 / 100),
          dewpoint_c = rnd (1890 / 100), dewpoint_f = rnd (3362 / 100),
          dewpoint_spread = 22 - rnd (1890 / 100),
          timestamp = ''2024-05-01 12:00:00'', status = ''Online'',
          raw_values = [4550, 440, 1124, 1890, 3362]\<rparr>"
    using decode5_scaled [of 4550 440 1124 1890 3362 "''2024-05-01 12:00:00''"] scenario_values
    by simp
  from spread_is_difference [THEN mp, OF d] d
  show ?thesis by simp
qed

text \<open>
  C10.  In the scaled branch the decoded humidity is greater than 10.0 and at most the
  binary64 number written 655.35, which is \<open>65535 / 100.0\<close> and lies within
  \<open>1 / 10 ^ 13\<close> of 655.35.  Hence a decoded humidity of 10.0 or less comes from the
  unscaled branch only.
\<close>

theorem scaled_humidity_range:
  "(1000 < uint r0 \<longrightarrow>
      (\<exists>d. decode [r0, r1, r2, r3, r4] now = Inr d \<and>
           10 < humidity d \<and> humidity d \<le> rnd (65535 / 100))) \<and>
   (\<forall>d. decode [r0, r1, r2, r3, r4] now = Inr d \<and> humidity d \<le> 10 \<longrightarrow> uint r0 \<le> 1000) \<and>
   \<bar>rnd (65535 / 100) - 65535 / 100\<bar> < 1 / 10 ^ 13"
proof -
  have range: "10 < rnd (of_int (uint r0) / 100) \<and> rnd (of_int (uint r0) / 100) \<le> rnd (65535 / 100)"
    if h: "1000 < uint r0"
  proof -
    have "uint r0 < 65536" using uint_bounded [of r0] by simp
    then have "uint r0 \<le> 65535" by simp
    then have "(of_int (uint r0) :: rat) \<le> of_int 65535" by (simp only: of_int_le_iff)
    then have hi: "(of_int (uint r0) :: rat) / 100 \<le> 65535 / 100" by (simp del: of_int_uint)
    from h have "1001 \<le> uint r0" by simp
    then have "(of_int 1001 :: rat) \<le> of_int (uint r0)" by (simp only: of_int_le_iff)
    then have lo: "(1001 :: rat) / 100 \<le> of_int (uint r0) / 100" by (simp del: of_int_uint)
    have "rnd (1001 / 100) \<le> rnd (of_int (uint r0) / 100)" using lo by (intro rnd_mono) simp_all
    moreover have "rnd (of_int (uint r0) / 100) \<le> rnd (65535 / 100)"
      using hi lo by (intro rnd_mono) linarith+
    ultimately show ?thesis using humidity_bounds(1) by linarith
  qed
  have a: "\<exists>d. decode [r0, r1, r2, r3, r4] now = Inr d \<and>
           10 < humidity d \<and> humidity d \<le> rnd (65535 / 100)" if h: "1000 < uint r0"
    using range [OF h] by (simp only: decode5_scaled [OF h] sum.inject simp_thms reading_dict.select_convs)
  have b: "uint r0 \<le> 1000" if "decode [r0, r1, r2, r3, r4] now = Inr d" "humidity d \<le> 10" for d
  proof (rule ccontr)
    assume "\<not> uint r0 \<le> 1000"
    then have h: "1000 < uint r0" by simp
    from that(1) have "humidity d = rnd (of_int (uint r0) / 100)"
      by (simp only: decode5_scaled [OF h] sum.inject) (auto simp del: of_int_uint)
    with range [OF h] that(2) show False by linarith
  qed
  show ?thesis using a b humidity_bounds(2) by blast
qed

theorem scaled_humidity_range_witness:
  "1000 < uint (1001 :: register) \<and>
   (\<exists>d. decode [1001, 0, 0, 0, 0] [] = Inr d \<and> 10 < humidity d \<and> humidity d \<le> rnd (65535 / 100)) \<and>
   decode [10, 0, 0, 0, 0] [] =
     Inr \<lparr>humidity = 10, temp_c = 0, temp_f = 0, dewpoint_c = 0, dewpoint_f = 0,
          dewpoint_spread = 0, timestamp = [], status = ''Online'',
          raw_values = [10, 0, 0, 0, 0]\<rparr> \<and>
   uint (10 :: register) \<le> 1000"
proof -
  have h: "1000 < uint (1001 :: register)" by simp
  have d: "decode [10, 0, 0, 0, 0] [] =
     Inr \<lparr>humidity = 10, temp_c = 0, temp_f = 0, dewpoint_c = 0, dewpoint_f = 0,
          dewpoint_spread = 0, timestamp = [], status = ''Online'',
          raw_values = [10, 0, 0, 0, 0]\<rparr>"
    using decode5_unscaled [of 10 0 0 0 0 "[]"] by simp
  from scaled_humidity_range [of 1001 0 0 0 0 "[]"] h
  have 1: "\<exists>d. decode [1001, 0, 0, 0, 0] [] = Inr d \<and> 10 < humidity d \<and> humidity d \<le> rnd (65535 / 100)"
    by blast
  from scaled_humidity_range [of 10 0 0 0 0 "[]"] d
  have 2: "uint (10 :: register) \<le> 1000" by simp
  from h 1 d 2 show ?thesis by blast
qed

section \<open>Properties of one iteration of the reader loop\<close>

lemma read_cycle_failed:
  assumes "failure_tag io = Some tag"
  shows "sensor_data (read_cycle io s) = (sensor_data s)\<lparr>status := tag\<rparr>"
proof (cases "connect_io io")
  case ConnectFalse
  with assms show ?thesis
    by (simp add: failure_tag_def read_cycle_def try_block_def set_status_def call_def)
next
  case (ConnectRaises m)
  with assms show ?thesis
    by (simp add: failure_tag_def read_cycle_def try_block_def set_status_def call_def)
next
  case ConnectTrue
  show ?thesis
  proof (cases "read_io io")
    case (ReadRaises m)
    with assms ConnectTrue show ?thesis
      by (simp add: failure_tag_def read_cycle_def try_block_def set_status_def call_def)
  next
    case IsError
    with assms ConnectTrue show ?thesis
      by (cases "close_io io")
        (simp_all add: failure_tag_def read_cycle_def try_block_def close_client_def
          set_status_def call_def)
  next
    case (Registers raw)
    with assms ConnectTrue obtain e where "decode raw (now_io io) = Inl e"
      and "tag = ''Error: '' @ fault_str e"
      by (cases "decode raw (now_io io)") (simp_all add: failure_tag_def)
    with ConnectTrue Registers show ?thesis
      by (simp add: read_cycle_def try_block_def set_status_def call_def)
  qed
qed

lemma failure_tag_shape:
  assumes "failure_tag io = Some tag"
  shows "tag = ''Connection Failed'' \<or> tag = ''Modbus Error'' \<or> (\<exists>m. tag = ''Error: '' @ m)"
proof (cases "connect_io io")
  case ConnectTrue
  show ?thesis
  proof (cases "read_io io")
    case IsError
    with assms ConnectTrue show ?thesis
      by (cases "close_io io") (auto simp: failure_tag_def)
  next
    case (Registers raw)
    with assms ConnectTrue show ?thesis
      by (cases "decode raw (now_io io)") (auto simp: failure_tag_def)
  qed (use assms ConnectTrue in \<open>auto simp: failure_tag_def\<close>)
qed (use assms in \<open>auto simp: failure_tag_def\<close>)

text \<open>
  C3 as stated fails: an exception raised by \<open>close()\<close> after the assignment of line 811
  is handled like any other, so the cycle ends with status \<open>Error: <message>\<close> on the
  Reading it has just stored.
\<close>

theorem fault_after_assignment_counterexample:
  "status (sensor_data (read_cycle
      \<lparr>connect_io = ConnectTrue, read_io = Registers [45, 22, 72, 19, 66],
       close_io = CloseRaises ''Bad file descriptor'', now_io = ''2024-05-01 12:00:00''\<rparr>
      initial_state)) = ''Error: Bad file descriptor'' \<and>
   humidity (sensor_data (read_cycle
      \<lparr>connect_io = ConnectTrue, read_io = Registers [45, 22, 72, 19, 66],
       close_io = CloseRaises ''Bad file descriptor'', now_io = ''2024-05-01 12:00:00''\<rparr>
      initial_state)) = 45 \<and>
   humidity (sensor_data initial_state) = 0 \<and>
   humidity (sensor_data (read_cycle
      \<lparr>connect_io = ConnectTrue, read_io = Registers [45, 22, 72, 19, 66],
       close_io = CloseRaises ''Bad file descriptor'', now_io = ''2024-05-01 12:00:00''\<rparr>
      initial_state)) \<noteq> humidity (sensor_data initial_state)"
proof -
  have "uint (45 :: register) \<le> 1000" by simp
  note d = decode5_unscaled [OF this, of 22 72 19 66 "''2024-05-01 12:00:00''"]
  show ?thesis
    by (simp add: read_cycle_def try_block_def close_client_def call_def set_status_def d
        initial_state_def initial_sensor_data_def)
qed

text \<open>
  C3, amended.  A cycle that ends before the assignment of line 811 (\<open>connect()\<close>
  returns \<open>False\<close> or raises, the register read raises or returns an error response,
  or decoding raises) sets the status to its failure tag, which is
  \<open>Connection Failed\<close>, \<open>Modbus Error\<close> or \<open>Error: <message>\<close>, and leaves humidity,
  temp_c, temp_f, dewpoint_c, dewpoint_f, dewpoint_spread, timestamp and raw_values
  as they were before the cycle.
\<close>

theorem failed_cycle_keeps_reading:
  "failure_tag io = Some tag \<longrightarrow>
     status (sensor_data (read_cycle io s)) = tag \<and>
     (tag = ''Connection Failed'' \<or> tag = ''Modbus Error'' \<or> (\<exists>m. tag = ''Error: '' @ m)) \<and>
     humidity (sensor_data (read_cycle io s)) = humidity (sensor_data s) \<and>
     temp_c (sensor_data (read_cycle io s)) = temp_c (sensor_data s) \<and>
     temp_f (sensor_data (read_cycle io s)) = temp_f (sensor_data s) \<and>
     dewpoint_c (sensor_data (read_cycle io s)) = dewpoint_c (sensor_data s) \<and>
     dewpoint_f (sensor_data (read_cycle io s)) = dewpoint_f (sensor_data s) \<and>
     dewpoint_spread (sensor_data (read_cycle io s)) = dewpoint_spread (sensor_data s) \<and>
     timestamp (sensor_data (read_cycle io s)) = timestamp (sensor_data s) \<and>
     raw_values (sensor_data (read_cycle io s)) = raw_values (sensor_data s)"
proof
  assume t: "failure_tag io = Some tag"
  show "status (sensor_data (read_cycle io s)) = tag \<and>
     (tag = ''Connection Failed'' \<or> tag = ''Modbus Error'' \<or> (\<exists>m. tag = ''Error: '' @ m)) \<and>
     humidity (sensor_data (read_cycle io s)) = humidity (sensor_data s) \<and>
     temp_c (sensor_data (read_cycle io s)) = temp_c (sensor_data s) \<and>
     temp_f (sensor_data (read_cycle io s)) = temp_f (sensor_data s) \<and>
     dewpoint_c (sensor_data (read_cycle io s)) = dewpoint_c (sensor_data s) \<and>
     dewpoint_f (sensor_data (read_cycle io s)) = dewpoint_f (sensor_data s) \<and>
     dewpoint_spread (sensor_data (read_cycle io s)) = dewpoint_spread (sensor_data s) \<and>
     timestamp (sensor_data (read_cycle io s)) = timestamp (sensor_data s) \<and>
     raw_values (sensor_data (read_cycle io s)) = raw_values (sensor_data s)"
    using failure_tag_shape [OF t] by (simp add: read_cycle_failed [OF t])
qed

theorem failed_cycle_keeps_reading_witness:
  "failure_tag \<lparr>connect_io = ConnectTrue, read_io = ReadRaises ''timeout'',
                close_io = CloseReturns, now_io = ''2024-05-01 12:00:00''\<rparr>
     = Some ''Error: timeout'' \<and>
   status (sensor_data (read_cycle
      \<lparr>connect_io = ConnectTrue, read_io = ReadRaises ''timeout'',
       close_io = CloseReturns, now_io = ''2024-05-01 12:00:00''\<rparr> initial_state))
     = ''Error: timeout'' \<and>
   raw_values (sensor_data (read_cycle
      \<lparr>connect_io = ConnectTrue, read_io = ReadRaises ''timeout'',
       close_io = CloseReturns, now_io = ''2024-05-01 12:00:00''\<rparr> initial_state))
     = [0, 0, 0, 0, 0]"
proof -
  have h: "failure_tag \<lparr>connect_io = ConnectTrue, read_io = ReadRaises ''timeout'',
                close_io = CloseReturns, now_io = ''2024-05-01 12:00:00''\<rparr>
     = Some ''Error: timeout''"
    by (simp add: failure_tag_def)
  from failed_cycle_keeps_reading [THEN mp, OF h, of initial_state] h show ?thesis
    by (simp add: initial_state_def initial_sensor_data_def)
qed

lemma failed_run:
  assumes "\<forall>io\<in>set ios. failure_tag io \<noteq> None"
  shows "sensor_data (read_sensor_data ios s) =
    (sensor_data s)\<lparr>status := (if ios = [] then status (sensor_data s)
                                else the (failure_tag (last ios)))\<rparr>"
  using assms
proof (induction ios arbitrary: s)
  case Nil
  then show ?case by simp
next
  case (Cons io ios)
  then obtain tag where tag: "failure_tag io = Some tag" by auto
  from Cons have "sensor_data (read_sensor_data ios (read_cycle io s)) =
    (sensor_data (read_cycle io s))\<lparr>status :=
       (if ios = [] then status (sensor_data (read_cycle io s))
        else the (failure_tag (last ios)))\<rparr>"
    by simp
  then show ?case by (simp add: read_cycle_failed [OF tag] tag)
qed

text \<open>
  C5 as stated fails: after one cycle whose \<open>connect()\<close> returned \<open>False\<close>, and before
  any cycle has succeeded, \<open>get_data\<close> returns the status \<open>Connection Failed\<close>.
\<close>

theorem failed_first_cycle_counterexample:
  "status (get_data (read_sensor_data
      [\<lparr>connect_io = ConnectFalse, read_io = IsError, close_io = CloseReturns,
        now_io = ''2024-05-01 12:00:00''\<rparr>] initial_state)) = ''Connection Failed'' \<and>
   status (get_data (read_sensor_data
      [\<lparr>connect_io = ConnectFalse, read_io = IsError, close_io = CloseReturns,
        now_io = ''2024-05-01 12:00:00''\<rparr>] initial_state)) \<noteq> ''Initializing...''"
  by (simp add: get_data_def read_cycle_def try_block_def call_def set_status_def
      initial_state_def initial_sensor_data_def)

text \<open>
  C5, amended.  As long as no cycle has stored a Reading, that is, has reached the
  assignment of line 811, \<open>get_data\<close> returns the zero-valued Reading (numeric fields
  0.0, empty timestamp, raw_values \<open>[0, 0, 0, 0, 0]\<close>); its status is
  \<open>Initializing...\<close> before the first cycle and the failure tag of the latest cycle
  afterwards.  A cycle that stores a Reading counts as having stored it even when
  \<open>close()\<close> then raises and the status ends as \<open>Error: <message>\<close>.
\<close>

theorem reading_before_first_success:
  "(\<forall>io\<in>set ios. failure_tag io \<noteq> None) \<longrightarrow>
     humidity (get_data (read_sensor_data ios initial_state)) = 0 \<and>
     temp_c (get_data (read_sensor_data ios initial_state)) = 0 \<and>
     temp_f (get_data (read_sensor_data ios initial_state)) = 0 \<and>
     dewpoint_c (get_data (read_sensor_data ios initial_state)) = 0 \<and>
     dewpoint_f (get_data (read_sensor_data ios initial_state)) = 0 \<and>
     dewpoint_spread (get_data (read_sensor_data ios initial_state)) = 0 \<and>
     timestamp (get_data (read_sensor_data ios initial_state)) = [] \<and>
     raw_values (get_data (read_sensor_data ios initial_state)) = [0, 0, 0, 0, 0] \<and>
     (ios = [] \<longrightarrow>
        status (get_data (read_sensor_data ios initial_state)) = ''Initializing...'') \<and>
     (ios \<noteq> [] \<longrightarrow>
        failure_tag (last ios) = Some (status (get_data (read_sensor_data ios initial_state))))"
proof
  assume a: "\<forall>io\<in>set ios. failure_tag io \<noteq> None"
  have l: "failure_tag (last ios) \<noteq> None" if "ios \<noteq> []" using a that by simp
  show "humidity (get_data (read_sensor_data ios initial_state)) = 0 \<and>
     temp_c (get_data (read_sensor_data ios initial_state)) = 0 \<and>
     temp_f (get_data (read_sensor_data ios initial_state)) = 0 \<and>
     dewpoint_c (get_data (read_sensor_data ios initial_state)) = 0 \<and>
     dewpoint_f (get_data (read_sensor_data ios initial_state)) = 0 \<and>
     dewpoint_spread (get_data (read_sensor_data ios initial_state)) = 0 \<and>
     timestamp (get_data (read_sensor_data ios initial_state)) = [] \<and>
     raw_values (get_data (read_sensor_data ios initial_state)) = [0, 0, 0, 0, 0] \<and>
     (ios = [] \<longrightarrow>
        status (get_data (read_sensor_data ios initial_state)) = ''Initializing...'') \<and>
     (ios \<noteq> [] \<longrightarrow>
        failure_tag (last ios) = Some (status (get_data (read_sensor_data ios initial_state))))"
    using l by (auto simp: get_data_def failed_run [OF a] initial_state_def initial_sensor_data_def)
qed

theorem reading_before_first_success_witness:
  "failure_tag \<lparr>connect_io = ConnectFalse, read_io = IsError, close_io = CloseReturns,
                 now_io = ''2024-05-01 12:00:00''\<rparr> = Some ''Connection Failed'' \<and>
   failure_tag \<lparr>connect_io = ConnectTrue, read_io = IsError, close_io = CloseReturns,
                 now_io = ''2024-05-01 12:00:01''\<rparr> = Some ''Modbus Error'' \<and>
   humidity (get_data (read_sensor_data
               [\<lparr>connect_io = ConnectFalse, read_io = IsError, close_io = CloseReturns,
                  now_io = ''2024-05-01 12:00:00''\<rparr>,
                \<lparr>connect_io = ConnectTrue, read_io = IsError, close_io = CloseReturns,
                  now_io = ''2024-05-01 12:00:01''\<rparr>] initial_state)) = 0 \<and>
   raw_values (get_data (read_sensor_data
               [\<lparr>connect_io = ConnectFalse, read_io = IsError, close_io = CloseReturns,
                  now_io = ''2024-05-01 12:00:00''\<rparr>,
                \<lparr>connect_io = ConnectTrue, read_io = IsError, close_io = CloseReturns,
                  now_io = ''2024-05-01 12:00:01''\<rparr>] initial_state)) = [0, 0, 0, 0, 0] \<and>
   status (get_data (read_sensor_data
               [\<lparr>connect_io = ConnectFalse, read_io = IsError, close_io = CloseReturns,
                  now_io = ''2024-05-01 12:00:00''\<rparr>,
                \<lparr>connect_io = ConnectTrue, read_io = IsError, close_io = CloseReturns,
                  now_io = ''2024-05-01 12:00:01''\<rparr>] initial_state)) = ''Modbus Error''"
proof -
  have t: "failure_tag \<lparr>connect_io = ConnectFalse, read_io = IsError, close_io = CloseReturns,
                 now_io = ''2024-05-01 12:00:00''\<rparr> = Some ''Connection Failed''"
    "failure_tag \<lparr>connect_io = ConnectTrue, read_io = IsError, close_io = CloseReturns,
                 now_io = ''2024-05-01 12:00:01''\<rparr> = Some ''Modbus Error''"
    by (simp_all add: failure_tag_def)
  then have h: "\<forall>io\<in>set [\<lparr>connect_io = ConnectFalse, read_io = IsError, close_io = CloseReturns,
                  now_io = ''2024-05-01 12:00:00''\<rparr>,
                \<lparr>connect_io = ConnectTrue, read_io = IsError, close_io = CloseReturns,
                  now_io = ''2024-05-01 12:00:01''\<rparr>]. failure_tag io \<noteq> None"
    by simp
  from reading_before_first_success [THEN mp, OF h] t show ?thesis
    by simp
qed

text \<open>
  C7.  The code at the failing inputs: when the register read raises, or decoding raises
  on a short register list, the cycle calls \<open>connect()\<close> and
  \<open>read_holding_registers\<close> and never \<open>close()\<close>; on an error response and on a
  successful read it does call \<open>close()\<close>.
\<close>

theorem close_skipped_on_fault:
  "client_calls (read_cycle
      \<lparr>connect_io = ConnectTrue, read_io = ReadRaises ''Modbus Error: [Input/Output] timeout'',
       close_io = CloseReturns, now_io = ''2024-05-01 12:00:00''\<rparr> initial_state)
     = [Connect, ReadHoldingRegisters] \<and>
   client_calls (read_cycle
      \<lparr>connect_io = ConnectTrue, read_io = Registers [4550, 440],
       close_io = CloseReturns, now_io = ''2024-05-01 12:00:00''\<rparr> initial_state)
     = [Connect, ReadHoldingRegisters] \<and>
   client_calls (read_cycle
      \<lparr>connect_io = ConnectTrue, read_io = IsError,
       close_io = CloseReturns, now_io = ''2024-05-01 12:00:00''\<rparr> initial_state)
     = [Connect, ReadHoldingRegisters, Close] \<and>
   client_calls (read_cycle
      \<lparr>connect_io = ConnectTrue, read_io = Registers [45, 22, 72, 19, 66],
       close_io = CloseReturns, now_io = ''2024-05-01 12:00:00''\<rparr> initial_state)
     = [Connect, ReadHoldingRegisters, Close]"
proof -
  have "uint (45 :: register) \<le> 1000" by simp
  note d = decode5_unscaled [OF this, of 22 72 19 66 "''2024-05-01 12:00:00''"]
  have short: "decode [4550, 440] ''2024-05-01 12:00:00'' = Inl IndexError"
    by (simp add: decode_def scaled_def getitem_def truediv_def and_then_def)
  show ?thesis
    by (simp add: read_cycle_def try_block_def close_client_def call_def set_status_def d short
        initial_state_def)
qed

section \<open>The shutdown flag\<close>

lemma read_cycle_shutdown_flag: "shutdown_flag (read_cycle io s) = shutdown_flag s"
proof -
  have c: "shutdown_flag (fst (close_client io t)) = shutdown_flag t" for t
    by (cases "close_io io") (simp_all add: close_client_def call_def)
  have t: "shutdown_flag (fst (try_block io s)) = shutdown_flag s"
  proof (cases "connect_io io")
    case ConnectTrue
    show ?thesis
    proof (cases "read_io io")
      case (Registers raw)
      with ConnectTrue show ?thesis
        by (cases "decode raw (now_io io)") (simp_all add: try_block_def c call_def)
    next
      case IsError
      with ConnectTrue show ?thesis by (simp add: try_block_def c call_def set_status_def)
    next
      case (ReadRaises m)
      with ConnectTrue show ?thesis by (simp add: try_block_def call_def)
    qed
  qed (simp_all add: try_block_def call_def set_status_def)
  show ?thesis
  proof (cases "try_block io s")
    case (Pair s' r)
    with t show ?thesis by (cases r) (simp_all add: read_cycle_def set_status_def)
  qed
qed

lemma step_flag_inv: "flag_inv p \<Longrightarrow> flag_inv (step ev p)"
  by (cases ev; cases "main_thread p")
    (auto simp: flag_inv_def step_def interrupt_def read_cycle_shutdown_flag)

lemma run_flag_inv: "flag_inv p \<Longrightarrow> flag_inv (run evs p)"
  by (induction evs arbitrary: p) (simp_all add: step_flag_inv)

lemma step_keeps_flag: "shutdown_flag (globals p) \<Longrightarrow> shutdown_flag (globals (step ev p))"
  by (cases ev; cases "main_thread p")
    (auto simp: step_def interrupt_def read_cycle_shutdown_flag)

lemma run_keeps_flag: "shutdown_flag (globals p) \<Longrightarrow> shutdown_flag (globals (run evs p))"
  by (induction evs arbitrary: p) (simp_all add: step_keeps_flag)

text \<open>
  C6.  \<open>shutdown_flag\<close> is false at the start, where \<open>shutdown\<close> answers
  \<open>running\<close>; over any run from the start the assignment of line 985 is executed at
  most once; and from any state in which the flag is set, whatever happens next, the
  flag stays set and \<open>shutdown\<close> answers \<open>shutting_down\<close>, never \<open>running\<close>.
\<close>

theorem shutdown_flag_latched:
  "\<not> shutdown_flag (globals initial_process) \<and>
   shutdown (globals initial_process) = ''running'' \<and>
   flag_writes (run evs initial_process) \<le> 1 \<and>
   (shutdown_flag (globals p) \<longrightarrow>
      shutdown_flag (globals (run evs' p)) \<and>
      shutdown (globals (run evs' p)) = ''shutting_down'' \<and>
      shutdown (globals (run evs' p)) \<noteq> ''running'')"
proof -
  have "flag_inv initial_process"
    by (simp add: flag_inv_def initial_process_def initial_state_def)
  then have "flag_inv (run evs initial_process)" by (rule run_flag_inv)
  then have "flag_writes (run evs initial_process) \<le> 1" by (simp add: flag_inv_def)
  moreover have "\<not> shutdown_flag (globals initial_process)"
    by (simp add: initial_process_def initial_state_def)
  moreover have "shutdown (globals initial_process) = ''running''"
    by (simp add: shutdown_def initial_process_def initial_state_def)
  moreover have "shutdown_flag (globals (run evs' p)) \<and>
      shutdown (globals (run evs' p)) = ''shutting_down'' \<and>
      shutdown (globals (run evs' p)) \<noteq> ''running''" if "shutdown_flag (globals p)"
    using run_keeps_flag [OF that, of evs'] by (simp add: shutdown_def)
  ultimately show ?thesis by blast
qed

theorem shutdown_flag_latched_witness:
  "shutdown_flag (globals (run [StartupDone, KeyboardInterrupt] initial_process)) \<and>
   shutdown (globals (run
      [ReaderCycle \<lparr>connect_io = ConnectFalse, read_io = IsError, close_io = CloseReturns,
                    now_io = ''2024-05-01 12:00:00''\<rparr>, KeyboardInterrupt, GraceElapsed]
      (run [StartupDone, KeyboardInterrupt] initial_process))) = ''shutting_down'' \<and>
   flag_writes (run [StartupDone, KeyboardInterrupt, KeyboardInterrupt] initial_process) \<le> 1"
proof -
  have h: "shutdown_flag (globals (run [StartupDone, KeyboardInterrupt] initial_process))"
    by (simp add: step_def interrupt_def initial_process_def)
  from shutdown_flag_latched
    [of "[StartupDone, KeyboardInterrupt, KeyboardInterrupt]"
        "run [StartupDone, KeyboardInterrupt] initial_process"
        "[ReaderCycle \<lparr>connect_io = ConnectFalse, read_io = IsError, close_io = CloseReturns,
                    now_io = ''2024-05-01 12:00:00''\<rparr>, KeyboardInterrupt, GraceElapsed]"] h
  show ?thesis by blast
qed

end
